theory Spec2Isabelle
  imports Main
begin

section \<open>Python values, errors and dictionaries\<close>

text \<open>
  The exceptions the modelled code can raise. \<open>KeyError k\<close> is a dictionary subscript
  \<open>d[k]\<close> on a missing key, \<open>IndexError\<close> is \<open>list(s)[0]\<close> on an empty set,
  \<open>OSError p\<close> is a failure of the file system or of unpickling at path \<open>p\<close>. The
  other three are raised by the graph library: \<open>AssertionError\<close> by an edge method on an
  endpoint that is not an entity, \<open>ValueError\<close> and \<open>AttributeError\<close> by the constructor
  of a composite entity.
\<close>

datatype error =
  KeyError string | IndexError | OSError string | AssertionError | ValueError | AttributeError

text \<open>\<open>d[k]\<close> on a dictionary with string keys.\<close>

definition getitem :: "(string \<rightharpoonup> 'v) \<Rightarrow> string \<Rightarrow> error + 'v" where
  "getitem d k = (case d k of None \<Rightarrow> Inl (KeyError k) | Some v \<Rightarrow> Inr v)"

text \<open>
  \<open>{d[k] for k in ks}\<close> before deduplication: every key is subscripted, the first
  missing one raises.
\<close>

fun getitems :: "(string \<rightharpoonup> 'v) \<Rightarrow> string list \<Rightarrow> error + 'v list" where
  "getitems d [] = Inr []"
| "getitems d (k # ks) =
     (case getitem d k of
        Inl e \<Rightarrow> Inl e
      | Inr v \<Rightarrow> (case getitems d ks of Inl e \<Rightarrow> Inl e | Inr vs \<Rightarrow> Inr (v # vs)))"

text \<open>
  A field of a raw record that is a string, or a set of strings where the RDF
  source gave several values. A set is represented by the list of its elements in
  iteration order.
\<close>

datatype field = Single string | Multi "string list"

text \<open>
  \<open>if isinstance(x, set): x = list(x)[0]\<close>: a string is kept, a set gives its first
  element, and the empty set raises.
\<close>

fun first_value :: "field \<Rightarrow> error + string" where
  "first_value (Single s) = Inr s"
| "first_value (Multi []) = Inl IndexError"
| "first_value (Multi (x # xs)) = Inr x"

section \<open>Raw records\<close>

text \<open>
  A raw node dictionary: the keys \<open>node_types\<close>, \<open>uri_id\<close> and \<open>name\<close> are
  subscripted unconditionally, the keys \<open>identifier\<close> and \<open>identifiers\<close> are tested
  with \<open>in\<close> first and so are optional.
\<close>

record raw_node =
  node_types :: "string set"
  node_uri_id :: string
  node_identifier :: "field option"
  node_identifiers :: "(string \<times> field) list option"
  node_name :: field

text \<open>The argument of the identifier resolver: a dictionary of identifiers or a whole node.\<close>

datatype node_ids = Identifiers "(string \<times> field) list" | WholeNode raw_node

record raw_complex =
  complex_participants :: "string list"
  complex_uri_id :: string

text \<open>
  An interaction dictionary. \<open>convert_to_bel\<close> pops \<open>participants\<close> and passes the rest
  to \<open>add_edges\<close>, which reads \<open>uri_id\<close> and \<open>interaction_types\<close> only.
\<close>

record interaction =
  participants :: "(string \<times> string) list"
  uri_id :: string
  interaction_types :: "string set"

section \<open>BEL nodes, edges and graphs\<close>

text \<open>
  The entities of \<open>pybel.dsl\<close>, by constructor. The simple entities carry namespace,
  name and identifier; \<open>ComplexAbundance\<close> carries members, identifier and namespace;
  \<open>reaction\<close> carries reactants and products. A Python set of entities is a
  duplicate-free list. An element may be \<open>None\<close>, since \<open>node_to_bel\<close> returns
  \<open>None\<close> for a node of unknown type and the converter does not filter it out.
\<close>

datatype bel_node =
    protein string string string
  | rna string string string
  | gene string string string
  | abundance string string string
  | bioprocess string string string
  | ComplexAbundance "bel_node option list" string string
  | reaction "bel_node option list" "bel_node option list"

text \<open>
  The relation of an edge. The converter asks for the first four; \<open>OtherRelation\<close>
  stands for every other relation of the graph library, such as the membership
  relations between a composite node and its members.
\<close>

datatype relation = Increases | Decreases | TranslatedTo | Association | OtherRelation string

datatype modifier = activity

text \<open>
  One edge of a graph: its two nodes and its data. Citation, evidence, modifier and
  the annotations container are absent on an edge that was added without them.
\<close>

record edge =
  edge_source :: bel_node
  edge_target :: bel_node
  edge_relation :: relation
  citation :: "string option"
  evidence :: "string option"
  object_modifier :: "modifier option"
  annotations :: "(string \<rightharpoonup> string set) option"

record BELGraph =
  graph_name :: string
  graph_version :: string
  graph_description :: string
  graph_pathway_id :: string
  graph_authors :: string
  graph_contact :: string
  graph_nodes :: "bel_node list"
  graph_edges :: "edge list"
  annotation_list :: "string \<rightharpoonup> string set"

text \<open>
  The graph methods the converter calls belong to the graph library. They are
  modelled as the library behaves on the calls the converter makes:
  \<^item> \<open>add_node_from_data\<close> inserts a node unless it is there;
  \<^item> an edge method asserts that both endpoints are entities, so a \<open>None\<close> endpoint
    raises \<open>AssertionError\<close> and nothing is added; otherwise it inserts both endpoints
    and adds the edge, unless an edge between the same nodes with the same data is
    already in the graph.
  For a composite node that is not yet in the graph the library also inserts its
  members and the membership edges it derives from them. That part is not modelled;
  what is proved about the edges of a graph is stated for its simple edges, those with
  one of the four relations the converter asks for.
\<close>

definition add_node_from_data :: "BELGraph \<Rightarrow> bel_node \<Rightarrow> BELGraph" where
  "add_node_from_data g n =
     (if n \<in> set (graph_nodes g) then g else g\<lparr>graph_nodes := graph_nodes g @ [n]\<rparr>)"

text \<open>
  The common part of the edge methods: the checks on the endpoints, their insertion,
  and the edge with the given data.
\<close>

definition help_add_edge ::
  "BELGraph \<Rightarrow> bel_node option \<Rightarrow> bel_node option \<Rightarrow> relation \<Rightarrow> string option \<Rightarrow> string option \<Rightarrow>
   modifier option \<Rightarrow> (string \<rightharpoonup> string set) option \<Rightarrow> error + BELGraph" where
  "help_add_edge g u v rel c ev m ann =
     (case u of
        None \<Rightarrow> Inl AssertionError
      | Some a \<Rightarrow>
         (case v of
            None \<Rightarrow> Inl AssertionError
          | Some b \<Rightarrow>
             (let g1 = add_node_from_data (add_node_from_data g a) b;
                  e = \<lparr>edge_source = a, edge_target = b, edge_relation = rel, citation = c,
                       evidence = ev, object_modifier = m, annotations = ann\<rparr>
              in Inr (if e \<in> set (graph_edges g1) then g1
                      else g1\<lparr>graph_edges := graph_edges g1 @ [e]\<rparr>))))"

definition add_increases ::
  "BELGraph \<Rightarrow> bel_node option \<Rightarrow> bel_node option \<Rightarrow> string \<Rightarrow> string \<Rightarrow> modifier \<Rightarrow>
   error + BELGraph" where
  "add_increases g u v c ev m = help_add_edge g u v Increases (Some c) (Some ev) (Some m) None"

definition add_decreases ::
  "BELGraph \<Rightarrow> bel_node option \<Rightarrow> bel_node option \<Rightarrow> string \<Rightarrow> string \<Rightarrow> modifier \<Rightarrow>
   error + BELGraph" where
  "add_decreases g u v c ev m = help_add_edge g u v Decreases (Some c) (Some ev) (Some m) None"

definition add_translation ::
  "BELGraph \<Rightarrow> bel_node option \<Rightarrow> bel_node option \<Rightarrow> error + BELGraph" where
  "add_translation g u v = help_add_edge g u v TranslatedTo None None None None"

definition add_association ::
  "BELGraph \<Rightarrow> bel_node option \<Rightarrow> bel_node option \<Rightarrow> string \<Rightarrow> string \<Rightarrow>
   (string \<rightharpoonup> string set) \<Rightarrow> error + BELGraph" where
  "add_association g u v c ev ann =
     help_add_edge g u v Association (Some c) (Some ev) None (Some ann)"

text \<open>
  The constructor \<open>complex_abundance\<close> of the library: it refuses an empty member set
  with \<open>ValueError\<close> and fails with \<open>AttributeError\<close> on a member that is \<open>None\<close>.
\<close>

definition complex_abundance :: "bel_node option list \<Rightarrow> string \<Rightarrow> string \<Rightarrow> error + bel_node" where
  "complex_abundance members identifier namespace =
     (if members = [] then Inl ValueError
      else if None \<in> set members then Inl AttributeError
      else Inr (ComplexAbundance members identifier namespace))"

section \<open>The WikiPathways converter\<close>

text \<open>
  What the converter imports from modules outside the modelled files: the constant
  \<open>HGNC\<close>, the URI parser, the identifier resolver (which also takes the gene
  database manager) and the description clean-up. They are parameters, taken to return
  without raising.
\<close>

record 'm wp_env =
  HGNC :: string
  parse_id_uri :: "string \<Rightarrow> string \<times> string \<times> string \<times> string"
  get_valid_gene_identifier :: "node_ids \<Rightarrow> 'm \<Rightarrow> string \<times> string \<times> string"
  evaluate_wikipathways_metadata :: "string \<Rightarrow> string"

text \<open>
  The dictionary of candidate identifiers that \<open>node_to_bel\<close> hands to the resolver:
  the one under \<open>identifiers\<close> when the node has it, the node dictionary itself otherwise.
\<close>

definition node_ids_dict :: "raw_node \<Rightarrow> node_ids" where
  "node_ids_dict node =
     (case node_identifiers node of Some d \<Rightarrow> Identifiers d | None \<Rightarrow> WholeNode node)"

definition node_to_bel :: "'m wp_env \<Rightarrow> raw_node \<Rightarrow> 'm \<Rightarrow> error + bel_node option" where
  "node_to_bel env node hgnc_manager =
     (let tys = node_types node;
          uri = node_uri_id node;
          identifier0 = (case node_identifier node of Some i \<Rightarrow> i | None \<Rightarrow> Single uri)
      in case first_value identifier0 of
           Inl e \<Rightarrow> Inl e
         | Inr identifier \<Rightarrow>
            (let ids = node_ids_dict node;
                 (_, _, namespace, _) = parse_id_uri env uri
             in case first_value (node_name node) of
                  Inl e \<Rightarrow> Inl e
                | Inr name \<Rightarrow>
                   (if ''Protein'' \<in> tys then
                      (let (ns, nm, idf) = get_valid_gene_identifier env ids hgnc_manager
                       in Inr (Some (protein ns nm idf)))
                    else if ''Rna'' \<in> tys then
                      (let (ns, nm, idf) = get_valid_gene_identifier env ids hgnc_manager
                       in Inr (Some (rna ns nm idf)))
                    else if ''GeneProduct'' \<in> tys then
                      (let (ns, nm, idf) = get_valid_gene_identifier env ids hgnc_manager
                       in Inr (Some (gene (HGNC env) nm idf)))
                    else if ''Metabolite'' \<in> tys then
                      Inr (Some (abundance namespace name identifier))
                    else if ''Pathway'' \<in> tys then
                      Inr (Some (bioprocess namespace name identifier))
                    else if ''DataNode'' \<in> tys then
                      Inr (Some (abundance namespace name identifier))
                    else Inr None)))"

text \<open>
  The dictionary comprehension of \<open>nodes_to_bel\<close>, over the items of the raw node
  dictionary in order; the accumulator is the dictionary built so far.
\<close>

fun nodes_to_bel_items ::
  "'m wp_env \<Rightarrow> (string \<times> raw_node) list \<Rightarrow> 'm \<Rightarrow> (string \<rightharpoonup> bel_node option) \<Rightarrow>
   error + (string \<rightharpoonup> bel_node option)" where
  "nodes_to_bel_items env [] hgnc_manager acc = Inr acc"
| "nodes_to_bel_items env ((node_id, node_att) # rest) hgnc_manager acc =
     (case node_to_bel env node_att hgnc_manager of
        Inl e \<Rightarrow> Inl e
      | Inr b \<Rightarrow> nodes_to_bel_items env rest hgnc_manager (acc(node_id \<mapsto> b)))"

definition nodes_to_bel ::
  "'m wp_env \<Rightarrow> (string \<times> raw_node) list \<Rightarrow> 'm \<Rightarrow> error + (string \<rightharpoonup> bel_node option)" where
  "nodes_to_bel env nodes hgnc_manager = nodes_to_bel_items env nodes hgnc_manager Map.empty"

definition complex_to_bel ::
  "'m wp_env \<Rightarrow> raw_complex \<Rightarrow> (string \<rightharpoonup> bel_node option) \<Rightarrow> BELGraph \<Rightarrow>
   error + bel_node \<times> BELGraph" where
  "complex_to_bel env cpx nodes g =
     (let members = remdups (List.map_filter nodes (complex_participants cpx));
          (_, _, _, identifier) = parse_id_uri env (complex_uri_id cpx)
      in case complex_abundance members identifier ''wp_complex'' of
           Inl e \<Rightarrow> Inl e
         | Inr complex_bel_node \<Rightarrow>
            Inr (complex_bel_node, add_node_from_data g complex_bel_node))"

text \<open>
  The dictionary comprehension of \<open>complexes_to_bel\<close>: every complex is built against
  the same node dictionary, the graph is threaded through.
\<close>

fun complexes_to_bel_items ::
  "'m wp_env \<Rightarrow> (string \<times> raw_complex) list \<Rightarrow> (string \<rightharpoonup> bel_node option) \<Rightarrow> BELGraph \<Rightarrow>
   (string \<rightharpoonup> bel_node option) \<Rightarrow> error + (string \<rightharpoonup> bel_node option) \<times> BELGraph" where
  "complexes_to_bel_items env [] nodes g acc = Inr (acc, g)"
| "complexes_to_bel_items env ((complex_id, cpx) # rest) nodes g acc =
     (case complex_to_bel env cpx nodes g of
        Inl e \<Rightarrow> Inl e
      | Inr (n, g') \<Rightarrow> complexes_to_bel_items env rest nodes g' (acc(complex_id \<mapsto> Some n)))"

definition complexes_to_bel ::
  "'m wp_env \<Rightarrow> (string \<times> raw_complex) list \<Rightarrow> (string \<rightharpoonup> bel_node option) \<Rightarrow> BELGraph \<Rightarrow>
   error + (string \<rightharpoonup> bel_node option) \<times> BELGraph" where
  "complexes_to_bel env complexes nodes g = complexes_to_bel_items env complexes nodes g Map.empty"

definition add_simple_edge ::
  "BELGraph \<Rightarrow> bel_node option \<Rightarrow> bel_node option \<Rightarrow> string set \<Rightarrow> string \<Rightarrow> error + BELGraph" where
  "add_simple_edge g u v edge_types uri =
     (if ''Stimulation'' \<in> edge_types then add_increases g u v uri '''' activity
      else if ''Inhibition'' \<in> edge_types then add_decreases g u v uri '''' activity
      else if ''Catalysis'' \<in> edge_types then add_increases g u v uri '''' activity
      else if ''TranscriptionTranslation'' \<in> edge_types then add_translation g u v
      else if ''DirectedInteraction'' \<in> edge_types then
        add_association g u v uri '''' [''EdgeTypes'' \<mapsto> edge_types]
      else if ''Interaction'' \<in> edge_types then Inr g
      else Inr g)"

text \<open>
  The loop of the non-Conversion branch of \<open>add_edges\<close>: \<open>source in nodes\<close> and
  \<open>target in nodes\<close> test that the key is there, whatever value it has. An error of
  \<open>add_simple_edge\<close> ends the loop.
\<close>

fun add_edges_pairs ::
  "BELGraph \<Rightarrow> (string \<times> string) list \<Rightarrow> (string \<rightharpoonup> bel_node option) \<Rightarrow> string set \<Rightarrow> string \<Rightarrow>
   error + BELGraph" where
  "add_edges_pairs g [] nodes edge_types uri = Inr g"
| "add_edges_pairs g ((s, t) # rest) nodes edge_types uri =
     (case nodes s of
        None \<Rightarrow> add_edges_pairs g rest nodes edge_types uri
      | Some u \<Rightarrow>
         (case nodes t of
            None \<Rightarrow> add_edges_pairs g rest nodes edge_types uri
          | Some v \<Rightarrow>
             (case add_simple_edge g u v edge_types uri of
                Inl e \<Rightarrow> Inl e
              | Inr g' \<Rightarrow> add_edges_pairs g' rest nodes edge_types uri)))"

definition add_edges ::
  "'m wp_env \<Rightarrow> BELGraph \<Rightarrow> (string \<times> string) list \<Rightarrow> (string \<rightharpoonup> bel_node option) \<Rightarrow>
   interaction \<Rightarrow> error + BELGraph" where
  "add_edges env g ps nodes att =
     (let uri = uri_id att;
          edge_types = interaction_types att;
          (_, _, namespace, interaction_id) = parse_id_uri env uri
      in if ''Conversion'' \<in> edge_types then
           (let reactants = remdups (map fst ps);
                products = remdups (map snd ps)
            in case getitems nodes reactants of
                 Inl e \<Rightarrow> Inl e
               | Inr rs \<Rightarrow>
                  (case getitems nodes products of
                     Inl e \<Rightarrow> Inl e
                   | Inr prs \<Rightarrow>
                      Inr (add_node_from_data g (reaction (remdups rs) (remdups prs)))))
         else add_edges_pairs g ps nodes edge_types uri)"

text \<open>The loop of \<open>convert_to_bel\<close> over the interactions.\<close>

fun add_all_edges ::
  "'m wp_env \<Rightarrow> BELGraph \<Rightarrow> interaction list \<Rightarrow> (string \<rightharpoonup> bel_node option) \<Rightarrow> error + BELGraph" where
  "add_all_edges env g [] nodes = Inr g"
| "add_all_edges env g (i # rest) nodes =
     (case add_edges env g (participants i) nodes i of
        Inl e \<Rightarrow> Inl e
      | Inr g' \<Rightarrow> add_all_edges env g' rest nodes)"

text \<open>
  The graph is created first, from the three fields of \<open>pathway_info\<close> in the order
  title, description, pathway identifier; then the nodes, the complexes and the
  interactions are mapped. The author names are written without their accents.
\<close>

definition convert_to_bel ::
  "'m wp_env \<Rightarrow> (string \<times> raw_node) list \<Rightarrow> (string \<times> raw_complex) list \<Rightarrow> interaction list \<Rightarrow>
   (string \<rightharpoonup> string) \<Rightarrow> 'm \<Rightarrow> error + BELGraph" where
  "convert_to_bel env nodes complexes interactions pathway_info hgnc_manager =
     (case getitem pathway_info ''title'' of
        Inl e \<Rightarrow> Inl e
      | Inr title \<Rightarrow>
     (case getitem pathway_info ''description'' of
        Inl e \<Rightarrow> Inl e
      | Inr descr \<Rightarrow>
     (case getitem pathway_info ''pathway_id'' of
        Inl e \<Rightarrow> Inl e
      | Inr pid \<Rightarrow>
         (let g = \<lparr>graph_name = title, graph_version = ''1.0.0'',
                   graph_description = evaluate_wikipathways_metadata env descr,
                   graph_pathway_id = pid,
                   graph_authors = ''Sarah Mubeen, Daniel Domingo-Fernandez & Josep Marin-Llao'',
                   graph_contact = ''daniel.domingo.fernandez@scai.fraunhofer.de'',
                   graph_nodes = [], graph_edges = [], annotation_list = Map.empty\<rparr>
          in case nodes_to_bel env nodes hgnc_manager of
               Inl e \<Rightarrow> Inl e
             | Inr resolved \<Rightarrow>
                (case complexes_to_bel env complexes resolved g of
                   Inl e \<Rightarrow> Inl e
                 | Inr (cs, g') \<Rightarrow> add_all_edges env g' interactions (resolved ++ cs))))))"

section \<open>The universe merger\<close>

text \<open>
  What the merger imports from outside the modelled files: the three database
  constants, the file system (\<open>os.listdir\<close>, \<open>os.path.isfile\<close>, \<open>os.path.join\<close>), the
  unpickler, and the flattening and name normalisation of a graph. Listing a directory
  and unpickling a file can fail; the others are taken to return without raising.
\<close>

record merge_env =
  KEGG :: string
  REACTOME :: string
  WIKIPATHWAYS :: string
  listdir :: "string \<Rightarrow> error + string list"
  isfile :: "string \<Rightarrow> bool"
  path_join :: "string \<Rightarrow> string \<Rightarrow> string"
  from_pickle :: "string \<Rightarrow> error + BELGraph"
  flatten_complex_nodes :: "BELGraph \<Rightarrow> BELGraph"
  normalize_graph_names :: "BELGraph \<Rightarrow> string \<Rightarrow> BELGraph"

text \<open>\<open>s.endswith(suffix)\<close>.\<close>

definition endswith :: "string \<Rightarrow> string \<Rightarrow> bool" where
  "endswith s suf \<longleftrightarrow> length suf \<le> length s \<and> drop (length s - length suf) s = suf"

definition add_annotation_key :: "BELGraph \<Rightarrow> BELGraph" where
  "add_annotation_key g =
     g\<lparr>graph_edges :=
         map (\<lambda>e. if annotations e = None then e\<lparr>annotations := Some Map.empty\<rparr> else e)
           (graph_edges g)\<rparr>"

text \<open>
  Modelled from the spec: \<open>add_annotation_value\<close> is imported from the graph library and
  is not among the modelled files. It adds the given value to the given annotation of
  the edges: on every edge that has an annotations container, the value joins the
  values asserted under the key; an edge without a container is left as it is.
\<close>

definition add_annotation_value :: "BELGraph \<Rightarrow> string \<Rightarrow> string \<Rightarrow> BELGraph" where
  "add_annotation_value g key val =
     g\<lparr>graph_edges :=
         map (\<lambda>e. case annotations e of
                     None \<Rightarrow> e
                   | Some a \<Rightarrow>
                      e\<lparr>annotations :=
                          Some (a(key \<mapsto> insert val (case a key of None \<Rightarrow> {} | Some vs \<Rightarrow> vs)))\<rparr>)
           (graph_edges g)\<rparr>"

definition get_paths_in_folder :: "merge_env \<Rightarrow> string \<Rightarrow> error + string list" where
  "get_paths_in_folder env directory =
     (case listdir env directory of
        Inl e \<Rightarrow> Inl e
      | Inr paths \<Rightarrow> Inr (filter (\<lambda>path. isfile env (path_join env directory path)) paths))"

definition get_all_pickles ::
  "merge_env \<Rightarrow> string \<Rightarrow> string \<Rightarrow> string \<Rightarrow> error + string list \<times> string list \<times> string list" where
  "get_all_pickles env kegg_path reactome_path wikipathways_path =
     (case get_paths_in_folder env kegg_path of
        Inl e \<Rightarrow> Inl e
      | Inr kegg_pickles \<Rightarrow>
     (case get_paths_in_folder env reactome_path of
        Inl e \<Rightarrow> Inl e
      | Inr reactome_pickles \<Rightarrow>
     (case get_paths_in_folder env wikipathways_path of
        Inl e \<Rightarrow> Inl e
      | Inr wp_pickles \<Rightarrow> Inr (kegg_pickles, reactome_pickles, wp_pickles))))"

text \<open>
  What each of the three branches of the loop of \<open>_iterate_universe_graphs\<close> does with
  the graph it has loaded; the branches differ in the database constant only.
\<close>

definition process_graph :: "merge_env \<Rightarrow> bool \<Rightarrow> bool \<Rightarrow> string \<Rightarrow> BELGraph \<Rightarrow> BELGraph" where
  "process_graph env flatten normalize_names db g =
     (let g1 = (if flatten then flatten_complex_nodes env g else g);
          g2 = (if normalize_names then normalize_graph_names env g1 db else g1);
          g3 = g2\<lparr>annotation_list :=
                    (annotation_list g2)(''database'' \<mapsto> {KEGG env, REACTOME env, WIKIPATHWAYS env})\<rparr>;
          g4 = add_annotation_key g3
      in add_annotation_value g4 ''database'' db)"

text \<open>One pass of the loop body: the file is skipped, a graph is yielded, or an error escapes.\<close>

datatype step = Continue | Yield BELGraph | Raise error

definition universe_graph_step ::
  "merge_env \<Rightarrow> string \<Rightarrow> string \<Rightarrow> string \<Rightarrow> bool \<Rightarrow> bool \<Rightarrow>
   string list \<Rightarrow> string list \<Rightarrow> string list \<Rightarrow> string \<Rightarrow> step" where
  "universe_graph_step env kegg_path reactome_path wikipathways_path flatten normalize_names
     kegg_pickles reactome_pickles wp_pickles file =
     (if \<not> endswith file ''.pickle'' then Continue
      else if file \<in> set kegg_pickles then
        (case from_pickle env (path_join env kegg_path file) of
           Inl e \<Rightarrow> Raise e
         | Inr g \<Rightarrow> Yield (process_graph env flatten normalize_names (KEGG env) g))
      else if file \<in> set reactome_pickles then
        (case from_pickle env (path_join env reactome_path file) of
           Inl e \<Rightarrow> Raise e
         | Inr g \<Rightarrow> Yield (process_graph env flatten normalize_names (REACTOME env) g))
      else if file \<in> set wp_pickles then
        (case from_pickle env (path_join env wikipathways_path file) of
           Inl e \<Rightarrow> Raise e
         | Inr g \<Rightarrow> Yield (process_graph env flatten normalize_names (WIKIPATHWAYS env) g))
      else Continue)"

text \<open>
  Running a generator to its end: the graphs it yields, in order, and the error that
  ended it, if one did. Nothing in the loop catches an error, so the first \<open>Raise\<close>
  ends the generator.
\<close>

fun run_loop :: "(string \<Rightarrow> step) \<Rightarrow> string list \<Rightarrow> BELGraph list \<times> error option" where
  "run_loop body [] = ([], None)"
| "run_loop body (file # rest) =
     (case body file of
        Continue \<Rightarrow> run_loop body rest
      | Raise e \<Rightarrow> ([], Some e)
      | Yield g \<Rightarrow> (let (gs, r) = run_loop body rest in (g # gs, r)))"

definition iterate_universe_graphs ::
  "merge_env \<Rightarrow> string \<Rightarrow> string \<Rightarrow> string \<Rightarrow> bool \<Rightarrow> bool \<Rightarrow> BELGraph list \<times> error option" where
  "iterate_universe_graphs env kegg_path reactome_path wikipathways_path flatten normalize_names =
     (case get_all_pickles env kegg_path reactome_path wikipathways_path of
        Inl e \<Rightarrow> ([], Some e)
      | Inr (kegg_pickles, reactome_pickles, wp_pickles) \<Rightarrow>
         run_loop
           (universe_graph_step env kegg_path reactome_path wikipathways_path flatten normalize_names
              kegg_pickles reactome_pickles wp_pickles)
           (kegg_pickles @ reactome_pickles @ wp_pickles))"

section \<open>Observations and concrete inputs\<close>

text \<open>
  A node whose insertion into \<open>g\<close> derives nothing: it is in the graph already, or it
  is not composite. Every node the converter passes to an edge method is of this kind:
  \<open>node_to_bel\<close> builds no composite node, and \<open>complex_to_bel\<close> inserts the composite
  node it builds.
\<close>

definition derives_nothing :: "BELGraph \<Rightarrow> bel_node \<Rightarrow> bool" where
  "derives_nothing g n \<longleftrightarrow>
     n \<in> set (graph_nodes g) \<or>
     (case n of ComplexAbundance ms i ns \<Rightarrow> False | reaction rs ps \<Rightarrow> False | _ \<Rightarrow> True)"

text \<open>
  The simple edges of a graph, in order: the edges with a relation that the converter
  asks for.
\<close>

definition simple_relation :: "relation \<Rightarrow> bool" where
  "simple_relation r \<longleftrightarrow> (case r of OtherRelation x \<Rightarrow> False | _ \<Rightarrow> True)"

definition simple_edges :: "BELGraph \<Rightarrow> edge list" where
  "simple_edges g = filter (\<lambda>e. simple_relation (edge_relation e)) (graph_edges g)"

text \<open>
  What an edge method does to a graph \<open>g\<close> when it adds the simple edge \<open>e\<close>, giving
  \<open>g'\<close>: the edge is appended unless the graph has it, no other simple edge changes,
  both endpoints
  are nodes of \<open>g'\<close> and no node is lost, and the rest of the graph is as it was.
  Where inserting the endpoints derives nothing, they are the only new nodes.
\<close>

definition edge_added :: "BELGraph \<Rightarrow> edge \<Rightarrow> BELGraph \<Rightarrow> bool" where
  "edge_added g e g' \<longleftrightarrow>
     simple_edges g' =
       (if e \<in> set (simple_edges g) then simple_edges g else simple_edges g @ [e]) \<and>
     set (graph_nodes g) \<union> {edge_source e, edge_target e} \<subseteq> set (graph_nodes g') \<and>
     (derives_nothing g (edge_source e) \<and> derives_nothing g (edge_target e) \<longrightarrow>
        set (graph_nodes g') = set (graph_nodes g) \<union> {edge_source e, edge_target e}) \<and>
     g'\<lparr>graph_nodes := [], graph_edges := []\<rparr> = g\<lparr>graph_nodes := [], graph_edges := []\<rparr>"

text \<open>
  A node whose multi-valued fields are not empty sets, so that picking the first
  value does not raise.
\<close>

definition fields_nonempty :: "raw_node \<Rightarrow> bool" where
  "fields_nonempty node \<longleftrightarrow> node_identifier node \<noteq> Some (Multi []) \<and> node_name node \<noteq> Multi []"

text \<open>A node that carries one of the six type tags \<open>node_to_bel\<close> knows.\<close>

definition recognized :: "raw_node \<Rightarrow> bool" where
  "recognized node \<longleftrightarrow>
     ''Protein'' \<in> node_types node \<or> ''Rna'' \<in> node_types node \<or>
     ''GeneProduct'' \<in> node_types node \<or> ''Metabolite'' \<in> node_types node \<or>
     ''Pathway'' \<in> node_types node \<or> ''DataNode'' \<in> node_types node"


text \<open>A node dictionary in which no key stands for \<open>None\<close>.\<close>

definition no_None :: "(string \<rightharpoonup> bel_node option) \<Rightarrow> bool" where
  "no_None nodes \<longleftrightarrow> (\<forall>k. nodes k \<noteq> Some None)"

text \<open>
  The nodes that stand behind the keys of a node dictionary: its values other
  than \<open>None\<close>.
\<close>

definition produced :: "(string \<rightharpoonup> bel_node option) \<Rightarrow> bel_node set" where
  "produced nodes = {n. \<exists>k. nodes k = Some (Some n)}"

text \<open>
  The graph as it is when the merger starts to annotate it: the loaded graph,
  flattened and with its names normalised where that was asked for.
\<close>

definition prepared_graph :: "merge_env \<Rightarrow> bool \<Rightarrow> bool \<Rightarrow> string \<Rightarrow> BELGraph \<Rightarrow> BELGraph" where
  "prepared_graph env flatten normalize_names db g =
     (if normalize_names
      then normalize_graph_names env (if flatten then flatten_complex_nodes env g else g) db
      else (if flatten then flatten_complex_nodes env g else g))"

text \<open>The values asserted under an annotation key on an edge; none without a container.\<close>

definition asserted :: "string \<Rightarrow> edge \<Rightarrow> string set" where
  "asserted key e =
     (case annotations e of None \<Rightarrow> {} | Some a \<Rightarrow> (case a key of None \<Rightarrow> {} | Some vs \<Rightarrow> vs))"

text \<open>
  An edge with the database tag, in the words of the merger's steps 4 and 5: the edge
  has an annotations container, the one it had or else an empty one, and in it \<open>db\<close> is
  added to the values asserted under \<open>database\<close>. Nothing else of the edge changes.
\<close>

definition tag_edge :: "string \<Rightarrow> edge \<Rightarrow> edge" where
  "tag_edge db e =
     e\<lparr>annotations :=
         Some ((case annotations e of None \<Rightarrow> Map.empty | Some a \<Rightarrow> a)
                 (''database'' \<mapsto> insert db (asserted ''database'' e)))\<rparr>"

text \<open>
  The graph \<open>g'\<close> is the graph \<open>g\<close> with the database tag: the key \<open>database\<close> is
  declared with the three databases as its values, every edge of \<open>g\<close> is there with the
  tag, in the same order, and nothing else differs.
\<close>

definition database_tagged :: "merge_env \<Rightarrow> string \<Rightarrow> BELGraph \<Rightarrow> BELGraph \<Rightarrow> bool" where
  "database_tagged env db g g' \<longleftrightarrow>
     g' = g\<lparr>graph_edges := map (tag_edge db) (graph_edges g),
            annotation_list :=
              (annotation_list g)(''database'' \<mapsto> {KEGG env, REACTOME env, WIKIPATHWAYS env})\<rparr>"

text \<open>The graphs that the passes of a loop body over a list of files yield, in order.\<close>

definition yielded :: "(string \<Rightarrow> step) \<Rightarrow> string list \<Rightarrow> BELGraph list" where
  "yielded body files =
     List.map_filter (\<lambda>x. case body x of Yield g \<Rightarrow> Some g | Continue \<Rightarrow> None | Raise e \<Rightarrow> None) files"

text \<open>
  A resolver that answers every query with an Entrez gene, a URI parser that puts the
  whole URI in the last component, and the empty graph.
\<close>

definition ex_env :: "unit wp_env" where
  "ex_env =
     \<lparr>HGNC = ''HGNC'',
      parse_id_uri = (\<lambda>uri. (''http'', ''identifiers.org'', ''wikipathways'', uri)),
      get_valid_gene_identifier = (\<lambda>ids m. (''ENTREZ'', ''TP53'', ''7157'')),
      evaluate_wikipathways_metadata = (\<lambda>d. d)\<rparr>"

definition ex_graph :: BELGraph where
  "ex_graph =
     \<lparr>graph_name = ''WP1'', graph_version = ''1.0.0'', graph_description = '''',
      graph_pathway_id = ''WP1'', graph_authors = '''', graph_contact = '''',
      graph_nodes = [], graph_edges = [], annotation_list = Map.empty\<rparr>"

definition ex_node :: "string set \<Rightarrow> raw_node" where
  "ex_node tys =
     \<lparr>node_types = tys, node_uri_id = ''http://identifiers.org/ncbigene/7157'',
      node_identifier = Some (Single ''7157''), node_identifiers = None,
      node_name = Single ''TP53''\<rparr>"

definition ex_interaction :: "string set \<Rightarrow> interaction" where
  "ex_interaction tys =
     \<lparr>participants = [(''n1'', ''n2'')], uri_id = ''http://rdf.wikipathways.org/WP1/i1'',
      interaction_types = tys\<rparr>"

text \<open>A complex with the given members.\<close>

definition ex_complex :: "string list \<Rightarrow> raw_complex" where
  "ex_complex ms =
     \<lparr>complex_participants = ms, complex_uri_id = ''http://rdf.wikipathways.org/WP1/c1''\<rparr>"

text \<open>Two proteins, and an edge between them that has no annotations container.\<close>

definition ex_a :: bel_node where
  "ex_a = protein ''HGNC'' ''TP53'' ''11998''"

definition ex_b :: bel_node where
  "ex_b = protein ''HGNC'' ''MDM2'' ''6973''"

definition ex_edge :: edge where
  "ex_edge =
     \<lparr>edge_source = ex_a, edge_target = ex_b,
      edge_relation = Increases, citation = Some ''c'', evidence = Some '''',
      object_modifier = None, annotations = None\<rparr>"

text \<open>
  A file system with two pickles in the KEGG folder, \<open>good.pickle\<close> and then
  \<open>bad.pickle\<close>, one pickle in the Reactome folder, and none in the WikiPathways
  folder. The pickle \<open>kegg/bad.pickle\<close> cannot be loaded; every other path loads a
  graph with one edge.
\<close>

definition ex_merge_env :: merge_env where
  "ex_merge_env =
     \<lparr>KEGG = ''kegg'', REACTOME = ''reactome'', WIKIPATHWAYS = ''wikipathways'',
      listdir = (\<lambda>d. if d = ''kegg'' then Inr [''good.pickle'', ''bad.pickle'']
                      else if d = ''reactome'' then Inr [''late.pickle'']
                      else Inr []),
      isfile = (\<lambda>p. True),
      path_join = (\<lambda>d f. d @ ''/'' @ f),
      from_pickle = (\<lambda>p. if p = ''kegg/bad.pickle'' then Inl (OSError p)
                          else Inr (ex_graph\<lparr>graph_edges := [ex_edge]\<rparr>)),
      flatten_complex_nodes = (\<lambda>g. g),
      normalize_graph_names = (\<lambda>g db. g)\<rparr>"

text \<open>
  The same file system without the bad pickle: \<open>good.pickle\<close> is listed in the KEGG
  folder and in the Reactome folder, and the KEGG folder also holds a text file.
\<close>

definition ex_merge_env2 :: merge_env where
  "ex_merge_env2 =
     ex_merge_env\<lparr>listdir := (\<lambda>d. if d = ''kegg'' then Inr [''good.pickle'', ''notes.txt'']
                      else if d = ''reactome'' then Inr [''good.pickle'']
                      else Inr [])\<rparr>"

section \<open>Simple edges\<close>

lemma help_add_edge_Some:
  assumes "simple_relation rel"
  shows "\<exists>g'. help_add_edge g (Some a) (Some b) rel c ev m ann = Inr g' \<and>
         edge_added g \<lparr>edge_source = a, edge_target = b, edge_relation = rel, citation = c,
                       evidence = ev, object_modifier = m, annotations = ann\<rparr> g'"
  using assms
  by (auto simp: help_add_edge_def edge_added_def add_node_from_data_def Let_def
      derives_nothing_def simple_edges_def)

lemma simple_relations:
  "simple_relation Increases" "simple_relation Decreases" "simple_relation TranslatedTo"
  "simple_relation Association"
  by (simp_all add: simple_relation_def)

lemma help_add_edge_data:
  assumes "simple_relation rel"
  shows "\<exists>g' e. help_add_edge g (Some a) (Some b) rel c ev m ann = Inr g' \<and> edge_added g e g' \<and>
           edge_source e = a \<and> edge_target e = b \<and> edge_relation e = rel \<and>
           citation e = c \<and> evidence e = ev"
proof -
  from help_add_edge_Some [OF assms, of g a b c ev m ann] obtain g' where
    "help_add_edge g (Some a) (Some b) rel c ev m ann = Inr g'"
    "edge_added g \<lparr>edge_source = a, edge_target = b, edge_relation = rel, citation = c,
                    evidence = ev, object_modifier = m, annotations = ann\<rparr> g'"
    by blast
  then show ?thesis
    by (intro exI [of _ g'] exI [of _ "\<lparr>edge_source = a, edge_target = b, edge_relation = rel,
          citation = c, evidence = ev, object_modifier = m, annotations = ann\<rparr>"]) simp
qed

lemma help_add_edge_None:
  "u = None \<or> v = None \<Longrightarrow> help_add_edge g u v rel c ev m ann = Inl AssertionError"
  by (auto simp: help_add_edge_def split: option.splits)

text \<open>
  Claim C7. For a pair whose two endpoints are resolved to nodes \<open>a\<close> and \<open>b\<close>,
  \<open>add_simple_edge\<close> tests the tags in the order Stimulation, Inhibition, Catalysis,
  TranscriptionTranslation, DirectedInteraction, and the first one present decides the
  one edge it adds from \<open>a\<close> to \<open>b\<close>: an increase with the activity modifier and the
  interaction URI as citation for Stimulation, a decrease with the same data for
  Inhibition, an increase for Catalysis, a translation for TranscriptionTranslation, an
  association annotated with the tag set for DirectedInteraction. The call returns, the
  graph then holds that edge once, and \<open>a\<close> and \<open>b\<close> are among its nodes. With none of
  the five tags (Interaction alone, or no known tag) the graph is returned as it was,
  whatever the endpoints are.
\<close>

theorem add_simple_edge_dispatch:
  "(''Stimulation'' \<in> et \<longrightarrow>
      (\<exists>g'. add_simple_edge g (Some a) (Some b) et uri = Inr g' \<and>
         edge_added g
           \<lparr>edge_source = a, edge_target = b, edge_relation = Increases, citation = Some uri,
             evidence = Some '''', object_modifier = Some activity, annotations = None\<rparr> g')) \<and>
   (''Stimulation'' \<notin> et \<and> ''Inhibition'' \<in> et \<longrightarrow>
      (\<exists>g'. add_simple_edge g (Some a) (Some b) et uri = Inr g' \<and>
         edge_added g
           \<lparr>edge_source = a, edge_target = b, edge_relation = Decreases, citation = Some uri,
             evidence = Some '''', object_modifier = Some activity, annotations = None\<rparr> g')) \<and>
   (''Stimulation'' \<notin> et \<and> ''Inhibition'' \<notin> et \<and> ''Catalysis'' \<in> et \<longrightarrow>
      (\<exists>g'. add_simple_edge g (Some a) (Some b) et uri = Inr g' \<and>
         edge_added g
           \<lparr>edge_source = a, edge_target = b, edge_relation = Increases, citation = Some uri,
             evidence = Some '''', object_modifier = Some activity, annotations = None\<rparr> g')) \<and>
   (''Stimulation'' \<notin> et \<and> ''Inhibition'' \<notin> et \<and> ''Catalysis'' \<notin> et \<and>
    ''TranscriptionTranslation'' \<in> et \<longrightarrow>
      (\<exists>g'. add_simple_edge g (Some a) (Some b) et uri = Inr g' \<and>
         edge_added g
           \<lparr>edge_source = a, edge_target = b, edge_relation = TranslatedTo, citation = None,
             evidence = None, object_modifier = None, annotations = None\<rparr> g')) \<and>
   (''Stimulation'' \<notin> et \<and> ''Inhibition'' \<notin> et \<and> ''Catalysis'' \<notin> et \<and>
    ''TranscriptionTranslation'' \<notin> et \<and> ''DirectedInteraction'' \<in> et \<longrightarrow>
      (\<exists>g'. add_simple_edge g (Some a) (Some b) et uri = Inr g' \<and>
         edge_added g
           \<lparr>edge_source = a, edge_target = b, edge_relation = Association, citation = Some uri,
             evidence = Some '''', object_modifier = None,
             annotations = Some [''EdgeTypes'' \<mapsto> et]\<rparr> g')) \<and>
   (''Stimulation'' \<notin> et \<and> ''Inhibition'' \<notin> et \<and> ''Catalysis'' \<notin> et \<and>
    ''TranscriptionTranslation'' \<notin> et \<and> ''DirectedInteraction'' \<notin> et \<longrightarrow>
      add_simple_edge g u v et uri = Inr g)"
  using help_add_edge_Some [of _ g a b]
  by (simp add: add_simple_edge_def add_increases_def add_decreases_def add_translation_def
      add_association_def simple_relations)

text \<open>
  A Stimulation between two proteins in the empty graph adds the two proteins and the
  increase; the same call on the result changes nothing; an interaction tagged
  Interaction only adds nothing.
\<close>

theorem add_simple_edge_dispatch_witness:
  "add_simple_edge ex_graph (Some ex_a) (Some ex_b) {''Stimulation'', ''Interaction''} ''u1'' =
     Inr (ex_graph\<lparr>graph_nodes := [ex_a, ex_b],
           graph_edges :=
             [\<lparr>edge_source = ex_a, edge_target = ex_b, edge_relation = Increases,
               citation = Some ''u1'', evidence = Some '''', object_modifier = Some activity,
               annotations = None\<rparr>]\<rparr>) \<and>
   add_simple_edge
     (ex_graph\<lparr>graph_nodes := [ex_a, ex_b],
           graph_edges :=
             [\<lparr>edge_source = ex_a, edge_target = ex_b, edge_relation = Increases,
               citation = Some ''u1'', evidence = Some '''', object_modifier = Some activity,
               annotations = None\<rparr>]\<rparr>)
     (Some ex_a) (Some ex_b) {''Stimulation'', ''Interaction''} ''u1'' =
     Inr (ex_graph\<lparr>graph_nodes := [ex_a, ex_b],
           graph_edges :=
             [\<lparr>edge_source = ex_a, edge_target = ex_b, edge_relation = Increases,
               citation = Some ''u1'', evidence = Some '''', object_modifier = Some activity,
               annotations = None\<rparr>]\<rparr>) \<and>
   add_simple_edge ex_graph (Some ex_a) (Some ex_b) {''Interaction''} ''u1'' = Inr ex_graph"
  using add_simple_edge_dispatch [of "{''Stimulation'', ''Interaction''}" ex_graph ex_a ex_b "''u1''"]
        add_simple_edge_dispatch [of "{''Interaction''}" ex_graph ex_a ex_b "''u1''" "Some ex_a" "Some ex_b"]
  by (simp add: add_simple_edge_def add_increases_def help_add_edge_def add_node_from_data_def
      ex_graph_def ex_a_def ex_b_def)

text \<open>
  Claim C3, as the code has it. For resolved endpoints \<open>a\<close> and \<open>b\<close>, the edge added
  when the first matching tag is Stimulation, Inhibition, Catalysis or
  DirectedInteraction carries the interaction URI as citation and the empty string as
  evidence. When TranscriptionTranslation is the first tag that matches, the edge is
  added by \<open>add_translation\<close>, which takes the two nodes only: that edge has neither a
  citation nor an evidence.
\<close>

theorem simple_edge_citation_evidence:
  "(''Stimulation'' \<in> et \<or> ''Inhibition'' \<in> et \<or> ''Catalysis'' \<in> et \<or>
    ''TranscriptionTranslation'' \<notin> et \<and> ''DirectedInteraction'' \<in> et \<longrightarrow>
      (\<exists>g' e. add_simple_edge g (Some a) (Some b) et uri = Inr g' \<and> edge_added g e g' \<and>
         edge_source e = a \<and> edge_target e = b \<and>
         citation e = Some uri \<and> evidence e = Some '''')) \<and>
   (''Stimulation'' \<notin> et \<and> ''Inhibition'' \<notin> et \<and> ''Catalysis'' \<notin> et \<and>
    ''TranscriptionTranslation'' \<in> et \<longrightarrow>
      (\<exists>g' e. add_simple_edge g (Some a) (Some b) et uri = Inr g' \<and> edge_added g e g' \<and>
         edge_source e = a \<and> edge_target e = b \<and> edge_relation e = TranslatedTo \<and>
         citation e = None \<and> evidence e = None))"
proof -
  have inc: "\<exists>g' e. add_increases g (Some a) (Some b) uri '''' activity = Inr g' \<and>
      edge_added g e g' \<and> edge_source e = a \<and> edge_target e = b \<and>
      citation e = Some uri \<and> evidence e = Some ''''"
    using help_add_edge_data [OF simple_relations(1), of g a b "Some uri" "Some ''''" "Some activity" None]
    unfolding add_increases_def by blast
  have dec: "\<exists>g' e. add_decreases g (Some a) (Some b) uri '''' activity = Inr g' \<and>
      edge_added g e g' \<and> edge_source e = a \<and> edge_target e = b \<and>
      citation e = Some uri \<and> evidence e = Some ''''"
    using help_add_edge_data [OF simple_relations(2), of g a b "Some uri" "Some ''''" "Some activity" None]
    unfolding add_decreases_def by blast
  have assoc: "\<exists>g' e. add_association g (Some a) (Some b) uri '''' [''EdgeTypes'' \<mapsto> et] = Inr g' \<and>
      edge_added g e g' \<and> edge_source e = a \<and> edge_target e = b \<and>
      citation e = Some uri \<and> evidence e = Some ''''"
    using help_add_edge_data [OF simple_relations(4), of g a b "Some uri" "Some ''''" None
        "Some [''EdgeTypes'' \<mapsto> et]"]
    unfolding add_association_def by blast
  have trans: "\<exists>g' e. add_translation g (Some a) (Some b) = Inr g' \<and>
      edge_added g e g' \<and> edge_source e = a \<and> edge_target e = b \<and>
      edge_relation e = TranslatedTo \<and> citation e = None \<and> evidence e = None"
    using help_add_edge_data [OF simple_relations(3), of g a b None None None None]
    unfolding add_translation_def by blast
  show ?thesis
    using inc dec assoc trans by (simp add: add_simple_edge_def)
qed

theorem simple_edge_citation_evidence_witness:
  "map_sum id (map citation \<circ> graph_edges)
     (add_simple_edge ex_graph (Some ex_a) (Some ex_b) {''DirectedInteraction''} ''u1'') =
     Inr [Some ''u1''] \<and>
   map_sum id (map evidence \<circ> graph_edges)
     (add_simple_edge ex_graph (Some ex_a) (Some ex_b) {''DirectedInteraction''} ''u1'') =
     Inr [Some ''''] \<and>
   map_sum id (map citation \<circ> graph_edges)
     (add_simple_edge ex_graph (Some (gene ''HGNC'' ''TP53'' ''11998'')) (Some ex_a)
        {''TranscriptionTranslation''} ''u1'') =
     Inr [None]"
  using simple_edge_citation_evidence [of "{''DirectedInteraction''}" ex_graph ex_a ex_b "''u1''"]
        simple_edge_citation_evidence
          [of "{''TranscriptionTranslation''}" ex_graph "gene ''HGNC'' ''TP53'' ''11998''" ex_a "''u1''"]
  by (simp add: add_simple_edge_def add_association_def add_translation_def help_add_edge_def
      add_node_from_data_def ex_graph_def ex_a_def ex_b_def)

text \<open>
  The translation edge from a gene to its protein, added for an interaction tagged
  TranscriptionTranslation, has no citation and no evidence.
\<close>

theorem translation_edge_counterexample:
  "map_sum id (map citation \<circ> graph_edges)
     (add_simple_edge ex_graph (Some (gene ''HGNC'' ''TP53'' ''11998''))
        (Some (protein ''HGNC'' ''TP53'' ''11998'')) {''TranscriptionTranslation''}
        ''http://rdf.wikipathways.org/WP1/i1'') = Inr [None] \<and>
   map_sum id (map evidence \<circ> graph_edges)
     (add_simple_edge ex_graph (Some (gene ''HGNC'' ''TP53'' ''11998''))
        (Some (protein ''HGNC'' ''TP53'' ''11998'')) {''TranscriptionTranslation''}
        ''http://rdf.wikipathways.org/WP1/i1'') = Inr [None]"
  by (simp add: add_simple_edge_def add_translation_def help_add_edge_def
      add_node_from_data_def ex_graph_def)

section \<open>Complexes\<close>

text \<open>
  Claim C10, at a failing input. A complex whose two declared members are not keys of
  the node dictionary: the filtered member set is empty, the constructor
  \<open>complex_abundance\<close> refuses it with \<open>ValueError\<close>, and \<open>complex_to_bel\<close> ends in that
  error. No composite node is built and none is inserted into the graph.
\<close>

theorem complex_without_resolved_members_raises:
  "complex_to_bel ex_env (ex_complex [''n1'', ''n2'']) Map.empty ex_graph = Inl ValueError"
  by (simp add: complex_to_bel_def complex_abundance_def List.map_filter_def ex_env_def
      ex_complex_def)

section \<open>Unresolved participants\<close>

text \<open>
  Claim C1, at a failing input. A Conversion interaction with the one pair
  \<open>(n1, n2)\<close>, where \<open>n1\<close> is a key of the node dictionary and \<open>n2\<close> is not: the set
  comprehension subscripts the dictionary with \<open>n2\<close> and the call ends in a
  \<open>KeyError\<close>; no reaction is built and the product is not dropped.
\<close>

theorem conversion_unresolved_product_raises:
  "add_edges ex_env ex_graph [(''n1'', ''n2'')] [''n1'' \<mapsto> Some (protein ''HGNC'' ''TP53'' ''11998'')]
     (ex_interaction {''Conversion''}) = Inl (KeyError ''n2'')"
  by (simp add: add_edges_def ex_env_def ex_interaction_def getitem_def)

section \<open>Node mapping\<close>

lemma first_value_ok: "f \<noteq> Multi [] \<Longrightarrow> \<exists>s. first_value f = Inr s"
  by (cases f rule: first_value.cases) simp_all

lemma identifier_value_ok:
  assumes "fields_nonempty node"
  shows "\<exists>i. first_value (case node_identifier node of Some i \<Rightarrow> i
                           | None \<Rightarrow> Single (node_uri_id node)) = Inr i"
proof -
  have "(case node_identifier node of Some i \<Rightarrow> i | None \<Rightarrow> Single (node_uri_id node)) \<noteq> Multi []"
    using assms by (auto simp: fields_nonempty_def split: option.splits)
  then show ?thesis by (rule first_value_ok)
qed

lemma name_value_ok: "fields_nonempty node \<Longrightarrow> \<exists>n. first_value (node_name node) = Inr n"
  by (simp add: fields_nonempty_def first_value_ok)

text \<open>
  Claim C4, as the code has it. For a node whose name and identifier are not empty
  sets, the Protein branch and the Rna branch build the node from the triple the
  resolver returns for the node's candidate identifiers. The GeneProduct branch takes
  the name and the identifier from the resolver's triple and the constant \<open>HGNC\<close> as
  the namespace, whatever namespace the resolver returned.
\<close>

theorem resolver_branches:
  assumes "fields_nonempty node"
    and "get_valid_gene_identifier env (node_ids_dict node) m = (ns, nm, idf)"
  shows "(''Protein'' \<in> node_types node \<longrightarrow>
            node_to_bel env node m = Inr (Some (protein ns nm idf))) \<and>
         (''Protein'' \<notin> node_types node \<and> ''Rna'' \<in> node_types node \<longrightarrow>
            node_to_bel env node m = Inr (Some (rna ns nm idf))) \<and>
         (''Protein'' \<notin> node_types node \<and> ''Rna'' \<notin> node_types node \<and>
          ''GeneProduct'' \<in> node_types node \<longrightarrow>
            node_to_bel env node m = Inr (Some (gene (HGNC env) nm idf)))"
proof -
  obtain i where i: "first_value (case node_identifier node of Some i \<Rightarrow> i
      | None \<Rightarrow> Single (node_uri_id node)) = Inr i"
    using identifier_value_ok [OF assms(1)] by blast
  obtain n where n: "first_value (node_name node) = Inr n"
    using name_value_ok [OF assms(1)] by blast
  show ?thesis
    using i n assms(2) by (simp add: node_to_bel_def Let_def split: prod.splits)
qed

theorem resolver_branches_witness:
  "node_to_bel ex_env (ex_node {''Protein''}) () = Inr (Some (protein ''ENTREZ'' ''TP53'' ''7157'')) \<and>
   node_to_bel ex_env (ex_node {''Rna'', ''GeneProduct''}) () = Inr (Some (rna ''ENTREZ'' ''TP53'' ''7157'')) \<and>
   node_to_bel ex_env (ex_node {''GeneProduct''}) () = Inr (Some (gene ''HGNC'' ''TP53'' ''7157''))"
  using resolver_branches [of "ex_node {''Protein''}" ex_env "()" "''ENTREZ''" "''TP53''" "''7157''"]
        resolver_branches [of "ex_node {''Rna'', ''GeneProduct''}" ex_env "()" "''ENTREZ''" "''TP53''" "''7157''"]
        resolver_branches [of "ex_node {''GeneProduct''}" ex_env "()" "''ENTREZ''" "''TP53''" "''7157''"]
  by (simp add: fields_nonempty_def ex_node_def ex_env_def)

text \<open>
  The resolver returns the namespace \<open>ENTREZ\<close> for a GeneProduct node; the gene node
  built from it has the namespace \<open>HGNC\<close>.
\<close>

theorem gene_product_namespace_counterexample:
  "get_valid_gene_identifier ex_env (node_ids_dict (ex_node {''GeneProduct''})) () =
     (''ENTREZ'', ''TP53'', ''7157'') \<and>
   node_to_bel ex_env (ex_node {''GeneProduct''}) () = Inr (Some (gene ''HGNC'' ''TP53'' ''7157''))"
  by (simp add: node_to_bel_def node_ids_dict_def ex_node_def ex_env_def)

section \<open>Edges and the nodes produced\<close>

lemma node_to_bel_unknown:
  assumes "fields_nonempty node" and "\<not> recognized node"
  shows "node_to_bel env node m = Inr None"
proof -
  obtain i where i: "first_value (case node_identifier node of Some i \<Rightarrow> i
      | None \<Rightarrow> Single (node_uri_id node)) = Inr i"
    using identifier_value_ok [OF assms(1)] by blast
  obtain n where n: "first_value (node_name node) = Inr n"
    using name_value_ok [OF assms(1)] by blast
  show ?thesis
    using i n assms(2) by (simp add: node_to_bel_def recognized_def Let_def split: prod.splits)
qed

lemma node_to_bel_unknown_no_node:
  "\<not> recognized node \<Longrightarrow> node_to_bel env node m \<noteq> Inr (Some n)"
  by (auto simp: node_to_bel_def recognized_def Let_def split: sum.splits prod.splits)

lemma add_simple_edge_None:
  assumes "u = None \<or> v = None"
  shows "add_simple_edge g u v et uri = Inr g \<or> add_simple_edge g u v et uri = Inl AssertionError"
  using help_add_edge_None [OF assms, of g]
  by (simp add: add_simple_edge_def add_increases_def add_decreases_def add_translation_def
      add_association_def)

lemma add_simple_edge_endpoints:
  assumes "add_simple_edge g u v et uri = Inr g'" and "e \<in> set (graph_edges g')"
  shows "e \<in> set (graph_edges g) \<or> (u = Some (edge_source e) \<and> v = Some (edge_target e))"
proof (cases "u = None \<or> v = None")
  case True
  from add_simple_edge_None [OF True, of g et uri] assms show ?thesis by auto
next
  case False
  then obtain a b where ab: "u = Some a" "v = Some b" by auto
  have *: "\<And>rel c ev m ann. help_add_edge g (Some a) (Some b) rel c ev m ann = Inr g' \<Longrightarrow>
      e \<in> set (graph_edges g) \<or> (a = edge_source e \<and> b = edge_target e)"
    using assms(2)
    by (auto simp: help_add_edge_def add_node_from_data_def Let_def split: if_splits)
  show ?thesis
    using assms ab *
    by (auto simp: add_simple_edge_def add_increases_def add_decreases_def add_translation_def
        add_association_def split: if_splits)
qed

lemma add_edges_pairs_endpoints:
  assumes "add_edges_pairs g ps nodes et uri = Inr g'" and "e \<in> set (graph_edges g')"
  shows "e \<in> set (graph_edges g) \<or>
         (\<exists>p \<in> set ps. nodes (fst p) = Some (Some (edge_source e)) \<and>
                        nodes (snd p) = Some (Some (edge_target e)))"
  using assms
proof (induction ps arbitrary: g)
  case Nil
  then show ?case by simp
next
  case (Cons p rest)
  obtain s t where p: "p = (s, t)" by (cases p)
  show ?case
  proof (cases "nodes s")
    case None
    with Cons p show ?thesis by auto
  next
    case (Some u)
    show ?thesis
    proof (cases "nodes t")
      case None
      with Cons p Some show ?thesis by auto
    next
      case (Some v)
      note t = this
      from Cons.prems(1) p \<open>nodes s = Some u\<close> t obtain g1 where
        g1: "add_simple_edge g u v et uri = Inr g1" "add_edges_pairs g1 rest nodes et uri = Inr g'"
        by (auto split: sum.splits)
      from Cons.IH [OF g1(2) Cons.prems(2)] show ?thesis
      proof
        assume "e \<in> set (graph_edges g1)"
        from add_simple_edge_endpoints [OF g1(1) this] p \<open>nodes s = Some u\<close> t
        show ?thesis by auto
      next
        assume "\<exists>p \<in> set rest. nodes (fst p) = Some (Some (edge_source e)) \<and>
                        nodes (snd p) = Some (Some (edge_target e))"
        then show ?thesis by auto
      qed
    qed
  qed
qed

lemma add_edges_endpoints:
  assumes "add_edges env g ps nodes att = Inr g'" and "e \<in> set (graph_edges g')"
  shows "e \<in> set (graph_edges g) \<or>
         (\<exists>p \<in> set ps. nodes (fst p) = Some (Some (edge_source e)) \<and>
                        nodes (snd p) = Some (Some (edge_target e)))"
proof (cases "''Conversion'' \<in> interaction_types att")
  case True
  with assms have "graph_edges g' = graph_edges g"
    by (auto simp: add_edges_def Let_def add_node_from_data_def split: prod.splits sum.splits)
  with assms(2) show ?thesis by simp
next
  case False
  with assms(1) have "add_edges_pairs g ps nodes (interaction_types att) (uri_id att) = Inr g'"
    by (simp add: add_edges_def Let_def split: prod.splits)
  from add_edges_pairs_endpoints [OF this assms(2)] show ?thesis .
qed

lemma add_all_edges_endpoints:
  assumes "add_all_edges env g is nodes = Inr g'" and "e \<in> set (graph_edges g')"
  shows "e \<in> set (graph_edges g) \<or>
         (edge_source e \<in> produced nodes \<and> edge_target e \<in> produced nodes)"
  using assms
proof (induction "is" arbitrary: g)
  case Nil
  then show ?case by simp
next
  case (Cons i rest)
  from Cons.prems(1) obtain g1 where
    g1: "add_edges env g (participants i) nodes i = Inr g1" "add_all_edges env g1 rest nodes = Inr g'"
    by (auto split: sum.splits)
  from Cons.IH [OF g1(2) Cons.prems(2)] show ?case
  proof
    assume "e \<in> set (graph_edges g1)"
    from add_edges_endpoints [OF g1(1) this] show ?thesis
      by (auto simp: produced_def)
  qed simp
qed

lemma complexes_to_bel_items_edges:
  "complexes_to_bel_items env cs nodes g acc = Inr (d, g') \<Longrightarrow> graph_edges g' = graph_edges g"
proof (induction cs arbitrary: g acc)
  case Nil
  then show ?case by simp
next
  case (Cons p rest)
  obtain k cpx where p: "p = (k, cpx)" by (cases p)
  from Cons.prems p obtain n g1 where
    g1: "complex_to_bel env cpx nodes g = Inr (n, g1)"
        "complexes_to_bel_items env rest nodes g1 (acc(k \<mapsto> Some n)) = Inr (d, g')"
    by (auto split: sum.splits)
  from g1(1) have "graph_edges g1 = graph_edges g"
    by (auto simp: complex_to_bel_def Let_def add_node_from_data_def split: prod.splits sum.splits)
  with Cons.IH [OF g1(2)] show ?case by simp
qed

text \<open>
  Claim C5. A node with none of the six known type tags gives no node: it is mapped
  to \<open>None\<close>, unless an empty name or identifier set makes the mapping raise. A
  pair that references such a node adds no edge: either the tags ask for no edge and
  the graph is returned as it was, or the edge method is called with the \<open>None\<close> and
  raises \<open>AssertionError\<close> before anything is added. Hence a simple edge that
  \<open>add_edges\<close> has added joins the nodes that stand behind the two keys of one of the
  pairs, and every simple edge of a graph that \<open>convert_to_bel\<close> returns has both
  endpoints among the nodes produced from the raw nodes and complexes.
\<close>

theorem edges_join_produced_nodes:
  "(\<not> recognized node \<longrightarrow> (\<forall>n. node_to_bel env node m \<noteq> Inr (Some n))) \<and>
   (fields_nonempty node \<and> \<not> recognized node \<longrightarrow> node_to_bel env node m = Inr None) \<and>
   (nodes s = Some None \<or> nodes t = Some None \<longrightarrow>
      add_edges_pairs g [(s, t)] nodes et uri = Inr g \<or>
      add_edges_pairs g [(s, t)] nodes et uri = Inl AssertionError) \<and>
   (\<forall>g' e. add_edges env g ps nodes att = Inr g' \<and> e \<in> set (simple_edges g') \<longrightarrow>
      e \<in> set (simple_edges g) \<or>
      (\<exists>p \<in> set ps. nodes (fst p) = Some (Some (edge_source e)) \<and>
                     nodes (snd p) = Some (Some (edge_target e)))) \<and>
   (\<forall>g'. convert_to_bel env raw_nodes complexes interactions pathway_info m = Inr g' \<longrightarrow>
      (\<exists>resolved cs g0 g1.
         nodes_to_bel env raw_nodes m = Inr resolved \<and>
         complexes_to_bel env complexes resolved g0 = Inr (cs, g1) \<and>
         (\<forall>e \<in> set (simple_edges g').
            edge_source e \<in> produced (resolved ++ cs) \<and>
            edge_target e \<in> produced (resolved ++ cs))))"
proof (intro conjI allI impI)
  fix n
  assume "\<not> recognized node"
  then show "node_to_bel env node m \<noteq> Inr (Some n)" by (rule node_to_bel_unknown_no_node)
next
  assume "fields_nonempty node \<and> \<not> recognized node"
  then show "node_to_bel env node m = Inr None" by (simp add: node_to_bel_unknown)
next
  assume a: "nodes s = Some None \<or> nodes t = Some None"
  show "add_edges_pairs g [(s, t)] nodes et uri = Inr g \<or>
      add_edges_pairs g [(s, t)] nodes et uri = Inl AssertionError"
  proof (cases "nodes s")
    case None
    then show ?thesis by simp
  next
    case (Some u)
    show ?thesis
    proof (cases "nodes t")
      case None
      with Some show ?thesis by simp
    next
      case (Some v)
      with a \<open>nodes s = Some u\<close> have "u = None \<or> v = None" by auto
      from add_simple_edge_None [OF this, of g et uri] Some \<open>nodes s = Some u\<close>
      show ?thesis by auto
    qed
  qed
next
  fix g' e
  assume a: "add_edges env g ps nodes att = Inr g' \<and> e \<in> set (simple_edges g')"
  then have "add_edges env g ps nodes att = Inr g'" "e \<in> set (graph_edges g')"
    "simple_relation (edge_relation e)"
    by (simp_all add: simple_edges_def)
  from add_edges_endpoints [OF this(1,2)] this(3)
  show "e \<in> set (simple_edges g) \<or>
      (\<exists>p \<in> set ps. nodes (fst p) = Some (Some (edge_source e)) \<and>
                     nodes (snd p) = Some (Some (edge_target e)))"
    by (auto simp: simple_edges_def)
next
  fix g'
  assume c: "convert_to_bel env raw_nodes complexes interactions pathway_info m = Inr g'"
  then obtain t d pid resolved cs g1 where
    r: "nodes_to_bel env raw_nodes m = Inr resolved"
    and cs: "complexes_to_bel env complexes resolved
               \<lparr>graph_name = t, graph_version = ''1.0.0'',
                graph_description = evaluate_wikipathways_metadata env d,
                graph_pathway_id = pid,
                graph_authors = ''Sarah Mubeen, Daniel Domingo-Fernandez & Josep Marin-Llao'',
                graph_contact = ''daniel.domingo.fernandez@scai.fraunhofer.de'',
                graph_nodes = [], graph_edges = [], annotation_list = Map.empty\<rparr> = Inr (cs, g1)"
    and ae: "add_all_edges env g1 interactions (resolved ++ cs) = Inr g'"
    by (auto simp: convert_to_bel_def Let_def split: sum.splits prod.splits)
  from cs have "graph_edges g1 = []"
    using complexes_to_bel_items_edges by (fastforce simp: complexes_to_bel_def)
  then have "\<forall>e \<in> set (simple_edges g').
            edge_source e \<in> produced (resolved ++ cs) \<and>
            edge_target e \<in> produced (resolved ++ cs)"
    using add_all_edges_endpoints [OF ae] by (auto simp: simple_edges_def)
  with r cs show "\<exists>resolved cs g0 g1.
         nodes_to_bel env raw_nodes m = Inr resolved \<and>
         complexes_to_bel env complexes resolved g0 = Inr (cs, g1) \<and>
         (\<forall>e \<in> set (simple_edges g').
            edge_source e \<in> produced (resolved ++ cs) \<and>
            edge_target e \<in> produced (resolved ++ cs))"
    by blast
qed

text \<open>
  A node tagged \<open>Unknown\<close> is mapped to \<open>None\<close>; a Stimulation from it to a protein makes
  the edge method raise, in \<open>add_edges_pairs\<close> and in the whole conversion; with two
  proteins the conversion returns a graph whose one edge starts at the node produced
  for \<open>n1\<close>.
\<close>

theorem edges_join_produced_nodes_witness:
  "node_to_bel ex_env (ex_node {''Unknown''}) () = Inr None \<and>
   add_edges_pairs ex_graph [(''n1'', ''n2'')] [''n1'' \<mapsto> None, ''n2'' \<mapsto> Some ex_b]
     {''Stimulation''} ''u1'' = Inl AssertionError \<and>
   convert_to_bel ex_env [(''n1'', ex_node {''Unknown''}), (''n2'', ex_node {''Protein''})] []
     [ex_interaction {''Stimulation''}]
     [''title'' \<mapsto> ''t'', ''description'' \<mapsto> ''d'', ''pathway_id'' \<mapsto> ''WP1''] () =
     Inl AssertionError \<and>
   map_sum id (map edge_source \<circ> simple_edges)
     (convert_to_bel ex_env [(''n1'', ex_node {''Rna''}), (''n2'', ex_node {''Protein''})] []
        [ex_interaction {''Stimulation''}]
        [''title'' \<mapsto> ''t'', ''description'' \<mapsto> ''d'', ''pathway_id'' \<mapsto> ''WP1''] ()) =
     Inr [rna ''ENTREZ'' ''TP53'' ''7157'']"
  using edges_join_produced_nodes [of "ex_node {''Unknown''}" ex_env "()"]
  by (simp add: convert_to_bel_def getitem_def nodes_to_bel_def node_to_bel_def node_ids_dict_def
      complexes_to_bel_def add_edges_def add_simple_edge_def add_increases_def help_add_edge_def
      add_node_from_data_def simple_edges_def simple_relation_def
      ex_env_def ex_node_def ex_interaction_def ex_graph_def)

section \<open>Pathway assembly\<close>

lemma node_to_bel_resolved:
  assumes "fields_nonempty node" and "recognized node"
  shows "\<exists>n. node_to_bel env node m = Inr (Some n)"
proof -
  obtain i where i: "first_value (case node_identifier node of Some i \<Rightarrow> i
      | None \<Rightarrow> Single (node_uri_id node)) = Inr i"
    using identifier_value_ok [OF assms(1)] by blast
  obtain n where n: "first_value (node_name node) = Inr n"
    using name_value_ok [OF assms(1)] by blast
  show ?thesis
    using i n assms(2) by (auto simp: node_to_bel_def recognized_def Let_def split: prod.splits)
qed

text \<open>
  With helpers that return, the node mapping returns and leaves no \<open>None\<close> when every
  node has a known type tag and non-empty name and identifier values.
\<close>

lemma nodes_to_bel_items_total:
  assumes "\<forall>p \<in> set nodes. fields_nonempty (snd p) \<and> recognized (snd p)" and "no_None acc"
  shows "\<exists>d. nodes_to_bel_items env nodes m acc = Inr d \<and> dom d = dom acc \<union> fst ` set nodes \<and>
             no_None d"
  using assms
proof (induction nodes arbitrary: acc)
  case Nil
  then show ?case by simp
next
  case (Cons p rest)
  obtain k node where p: "p = (k, node)" by (cases p)
  from Cons.prems p obtain n where n: "node_to_bel env node m = Inr (Some n)"
    using node_to_bel_resolved [of node env m] by auto
  from Cons.prems have rest: "\<forall>p \<in> set rest. fields_nonempty (snd p) \<and> recognized (snd p)" by simp
  have "no_None (acc(k \<mapsto> Some n))"
    using Cons.prems(2) by (simp add: no_None_def)
  from Cons.IH [OF rest this] obtain d where
    d: "nodes_to_bel_items env rest m (acc(k \<mapsto> Some n)) = Inr d"
       "dom d = dom (acc(k \<mapsto> Some n)) \<union> fst ` set rest" "no_None d"
    by blast
  have "dom d = dom acc \<union> fst ` set (p # rest)"
    using d(2) p by auto
  with d(1,3) p n show ?case by simp
qed










section \<open>The universe merger: classification and tagging\<close>

lemma ex_pickles:
  "get_all_pickles ex_merge_env ''kegg'' ''reactome'' ''wikipathways'' =
     Inr ([''good.pickle'', ''bad.pickle''], [''late.pickle''], [])"
  by (simp add: get_all_pickles_def get_paths_in_folder_def ex_merge_env_def)

lemma ex_pickles2:
  "get_all_pickles ex_merge_env2 ''kegg'' ''reactome'' ''wikipathways'' =
     Inr ([''good.pickle'', ''notes.txt''], [''good.pickle''], [])"
  by (simp add: get_all_pickles_def get_paths_in_folder_def ex_merge_env2_def ex_merge_env_def)

text \<open>
  In the second file system the merger visits \<open>good.pickle\<close>, \<open>notes.txt\<close> and
  \<open>good.pickle\<close> again. It skips the text file and yields two graphs, both loaded
  from the KEGG folder and tagged \<open>kegg\<close>.
\<close>

lemma ex_iterate2:
  "iterate_universe_graphs ex_merge_env2 ''kegg'' ''reactome'' ''wikipathways'' False False =
     ([ex_graph\<lparr>graph_edges := [ex_edge\<lparr>annotations := Some [''database'' \<mapsto> {''kegg''}]\<rparr>],
                annotation_list := [''database'' \<mapsto> {''kegg'', ''reactome'', ''wikipathways''}]\<rparr>,
       ex_graph\<lparr>graph_edges := [ex_edge\<lparr>annotations := Some [''database'' \<mapsto> {''kegg''}]\<rparr>],
                annotation_list := [''database'' \<mapsto> {''kegg'', ''reactome'', ''wikipathways''}]\<rparr>],
      None)"
  by (simp add: iterate_universe_graphs_def ex_pickles2)
     (simp add: universe_graph_step_def endswith_def
        ex_merge_env2_def ex_merge_env_def process_graph_def add_annotation_key_def
        add_annotation_value_def ex_edge_def ex_graph_def)

text \<open>
  The two annotation steps of the loop body, \<open>add_annotation_key\<close> and then
  \<open>add_annotation_value\<close>, give every edge the database tag.
\<close>

lemma tag_edge_steps:
  "(case annotations (if annotations e = None then e\<lparr>annotations := Some Map.empty\<rparr> else e) of
      None \<Rightarrow> (if annotations e = None then e\<lparr>annotations := Some Map.empty\<rparr> else e)
    | Some a \<Rightarrow>
       (if annotations e = None then e\<lparr>annotations := Some Map.empty\<rparr> else e)
         \<lparr>annotations := Some (a(key \<mapsto> insert db (case a key of None \<Rightarrow> {} | Some vs \<Rightarrow> vs)))\<rparr>) =
   e\<lparr>annotations :=
       Some ((case annotations e of None \<Rightarrow> Map.empty | Some a \<Rightarrow> a)
               (key \<mapsto> insert db (asserted key e)))\<rparr>"
  by (cases "annotations e") (simp_all add: asserted_def)

lemma process_graph_tagged:
  "database_tagged env db (prepared_graph env fl nn db g) (process_graph env fl nn db g)"
  by (simp add: database_tagged_def process_graph_def prepared_graph_def add_annotation_value_def
      add_annotation_key_def tag_edge_def tag_edge_steps Let_def comp_def)

lemma database_tagged_edges:
  assumes "database_tagged env db g g'"
  shows "annotation_list g' ''database'' = Some {KEGG env, REACTOME env, WIKIPATHWAYS env}"
    and "length (graph_edges g') = length (graph_edges g)"
    and "\<forall>e \<in> set (graph_edges g'). annotations e \<noteq> None \<and> db \<in> asserted ''database'' e"
  using assms by (auto simp: database_tagged_def tag_edge_def asserted_def)

lemma step_yield_cases:
  "universe_graph_step env kp rp wp fl nn kegg reactome wps f = Yield g' \<Longrightarrow>
     (f \<in> set kegg \<and> (\<exists>g. from_pickle env (path_join env kp f) = Inr g \<and>
         g' = process_graph env fl nn (KEGG env) g)) \<or>
     (f \<notin> set kegg \<and> f \<in> set reactome \<and>
        (\<exists>g. from_pickle env (path_join env rp f) = Inr g \<and>
         g' = process_graph env fl nn (REACTOME env) g)) \<or>
     (f \<notin> set kegg \<and> f \<notin> set reactome \<and> f \<in> set wps \<and>
        (\<exists>g. from_pickle env (path_join env wp f) = Inr g \<and>
         g' = process_graph env fl nn (WIKIPATHWAYS env) g))"
  by (auto simp: universe_graph_step_def split: if_splits sum.splits)

lemma run_loop_yielded:
  "g' \<in> set (fst (run_loop body files)) \<Longrightarrow> \<exists>f \<in> set files. body f = Yield g'"
  by (induction files) (auto split: step.splits prod.splits)

text \<open>
  Claim C8. The graph that the merger makes of a loaded graph for the database \<open>db\<close>
  is the loaded graph, flattened and normalised where asked, with the database tag:
  the key \<open>database\<close> is declared with exactly the three database constants as its
  values, and each of its edges is there, in order, with an annotations container in
  which \<open>db\<close> has joined the values asserted under \<open>database\<close>; an edge without a
  container gets one that holds this entry only, every other entry of a container is
  kept. \<open>add_annotation_key\<close> keeps the number and order of the edges, gives the empty
  container to an edge that has none and leaves every other edge as it is. A graph
  the loop body yields for a file is the tagged graph of the pickle loaded from the
  folder of the first listing that contains the file, tagged with that database, and
  every graph the merger yields is the tagged graph of a loaded pickle.
\<close>

theorem universe_edges_tagged:
  "database_tagged env db (prepared_graph env fl nn db g) (process_graph env fl nn db g) \<and>
   (database_tagged env db g g' \<longrightarrow>
      annotation_list g' ''database'' = Some {KEGG env, REACTOME env, WIKIPATHWAYS env} \<and>
      length (graph_edges g') = length (graph_edges g) \<and>
      (\<forall>e \<in> set (graph_edges g'). annotations e \<noteq> None \<and> db \<in> asserted ''database'' e)) \<and>
   length (graph_edges (add_annotation_key g)) = length (graph_edges g) \<and>
   (\<forall>i < length (graph_edges g).
      graph_edges (add_annotation_key g) ! i =
        (if annotations (graph_edges g ! i) = None
         then (graph_edges g ! i)\<lparr>annotations := Some Map.empty\<rparr>
         else graph_edges g ! i)) \<and>
   (universe_graph_step env kp rp wp fl nn kegg reactome wps f = Yield y \<longrightarrow>
      (\<exists>g0. from_pickle env
               (path_join env (if f \<in> set kegg then kp else if f \<in> set reactome then rp else wp) f) =
               Inr g0 \<and>
            database_tagged env
              (if f \<in> set kegg then KEGG env
               else if f \<in> set reactome then REACTOME env else WIKIPATHWAYS env)
              (prepared_graph env fl nn
                 (if f \<in> set kegg then KEGG env
                  else if f \<in> set reactome then REACTOME env else WIKIPATHWAYS env) g0) y)) \<and>
   (\<forall>z \<in> set (fst (iterate_universe_graphs env kp rp wp fl nn)).
      \<exists>db' \<in> {KEGG env, REACTOME env, WIKIPATHWAYS env}. \<exists>p g0.
        from_pickle env p = Inr g0 \<and>
        database_tagged env db' (prepared_graph env fl nn db' g0) z)"
proof (intro conjI)
  show "database_tagged env db (prepared_graph env fl nn db g) (process_graph env fl nn db g)"
    by (rule process_graph_tagged)
  show "database_tagged env db g g' \<longrightarrow>
      annotation_list g' ''database'' = Some {KEGG env, REACTOME env, WIKIPATHWAYS env} \<and>
      length (graph_edges g') = length (graph_edges g) \<and>
      (\<forall>e \<in> set (graph_edges g'). annotations e \<noteq> None \<and> db \<in> asserted ''database'' e)"
    using database_tagged_edges [of env db g g'] by blast
  show "length (graph_edges (add_annotation_key g)) = length (graph_edges g)"
    by (simp add: add_annotation_key_def)
  show "\<forall>i < length (graph_edges g).
      graph_edges (add_annotation_key g) ! i =
        (if annotations (graph_edges g ! i) = None
         then (graph_edges g ! i)\<lparr>annotations := Some Map.empty\<rparr>
         else graph_edges g ! i)"
    by (simp add: add_annotation_key_def)
  show "universe_graph_step env kp rp wp fl nn kegg reactome wps f = Yield y \<longrightarrow>
      (\<exists>g0. from_pickle env
               (path_join env (if f \<in> set kegg then kp else if f \<in> set reactome then rp else wp) f) =
               Inr g0 \<and>
            database_tagged env
              (if f \<in> set kegg then KEGG env
               else if f \<in> set reactome then REACTOME env else WIKIPATHWAYS env)
              (prepared_graph env fl nn
                 (if f \<in> set kegg then KEGG env
                  else if f \<in> set reactome then REACTOME env else WIKIPATHWAYS env) g0) y)"
    by (auto dest!: step_yield_cases simp: process_graph_tagged)
  show "\<forall>z \<in> set (fst (iterate_universe_graphs env kp rp wp fl nn)).
      \<exists>db' \<in> {KEGG env, REACTOME env, WIKIPATHWAYS env}. \<exists>p g0.
        from_pickle env p = Inr g0 \<and>
        database_tagged env db' (prepared_graph env fl nn db' g0) z"
  proof
    fix z assume z: "z \<in> set (fst (iterate_universe_graphs env kp rp wp fl nn))"
    show "\<exists>db' \<in> {KEGG env, REACTOME env, WIKIPATHWAYS env}. \<exists>p g0.
        from_pickle env p = Inr g0 \<and>
        database_tagged env db' (prepared_graph env fl nn db' g0) z"
    proof (cases "get_all_pickles env kp rp wp")
      case (Inl e)
      with z show ?thesis by (simp add: iterate_universe_graphs_def)
    next
      case (Inr t)
      obtain k r w where t: "t = (k, r, w)" by (cases t) auto
      from z Inr t obtain x where
        "universe_graph_step env kp rp wp fl nn k r w x = Yield z"
        by (auto simp: iterate_universe_graphs_def dest: run_loop_yielded)
      from step_yield_cases [OF this] show ?thesis
        using process_graph_tagged by fastforce
    qed
  qed
qed

theorem universe_edges_tagged_witness:
  "fst (iterate_universe_graphs ex_merge_env2 ''kegg'' ''reactome'' ''wikipathways'' False False) =
     [ex_graph\<lparr>graph_edges := [ex_edge\<lparr>annotations := Some [''database'' \<mapsto> {''kegg''}]\<rparr>],
                annotation_list := [''database'' \<mapsto> {''kegg'', ''reactome'', ''wikipathways''}]\<rparr>,
      ex_graph\<lparr>graph_edges := [ex_edge\<lparr>annotations := Some [''database'' \<mapsto> {''kegg''}]\<rparr>],
                annotation_list := [''database'' \<mapsto> {''kegg'', ''reactome'', ''wikipathways''}]\<rparr>] \<and>
   database_tagged ex_merge_env2 ''kegg'' (ex_graph\<lparr>graph_edges := [ex_edge]\<rparr>)
     (process_graph ex_merge_env2 False False ''kegg'' (ex_graph\<lparr>graph_edges := [ex_edge]\<rparr>)) \<and>
   graph_edges (process_graph ex_merge_env2 False False ''kegg'' (ex_graph\<lparr>graph_edges := [ex_edge]\<rparr>)) =
     [ex_edge\<lparr>annotations := Some [''database'' \<mapsto> {''kegg''}]\<rparr>] \<and>
   graph_edges (add_annotation_key (ex_graph\<lparr>graph_edges := [ex_edge]\<rparr>)) ! 0 =
     ex_edge\<lparr>annotations := Some Map.empty\<rparr>"
  using universe_edges_tagged
          [of ex_merge_env2 "''kegg''" False False "ex_graph\<lparr>graph_edges := [ex_edge]\<rparr>"]
  by (simp add: ex_iterate2 prepared_graph_def)
     (simp add: process_graph_def add_annotation_key_def add_annotation_value_def ex_edge_def
        ex_graph_def)

text \<open>
  Claim C9, as the code has it. A file name that does not end in \<open>.pickle\<close> is
  skipped, whatever listings hold it. A name that ends in \<open>.pickle\<close> is classified by
  the first of the three listings that contains it, tested in the order KEGG,
  Reactome, WikiPathways: a name in the KEGG listing is loaded from the KEGG folder
  and its graph is tagged with the KEGG constant, and the outcome is the one it would
  have with the other two listings empty; a name in the Reactome listing and not in
  the KEGG listing is loaded from the Reactome folder and tagged Reactome, whatever
  the WikiPathways listing holds; a name in the WikiPathways listing only is loaded
  from there. A name in no listing is skipped.
\<close>

theorem classification_first_match:
  "(\<not> endswith f ''.pickle'' \<longrightarrow>
      universe_graph_step env kp rp wp fl nn kegg reactome wps f = Continue) \<and>
   (endswith f ''.pickle'' \<and> f \<in> set kegg \<longrightarrow>
      universe_graph_step env kp rp wp fl nn kegg reactome wps f =
        universe_graph_step env kp rp wp fl nn kegg [] [] f \<and>
      (\<forall>e. from_pickle env (path_join env kp f) = Inl e \<longrightarrow>
         universe_graph_step env kp rp wp fl nn kegg reactome wps f = Raise e) \<and>
      (\<forall>g. from_pickle env (path_join env kp f) = Inr g \<longrightarrow>
         (\<exists>g'. universe_graph_step env kp rp wp fl nn kegg reactome wps f = Yield g' \<and>
               database_tagged env (KEGG env) (prepared_graph env fl nn (KEGG env) g) g'))) \<and>
   (endswith f ''.pickle'' \<and> f \<notin> set kegg \<and> f \<in> set reactome \<longrightarrow>
      universe_graph_step env kp rp wp fl nn kegg reactome wps f =
        universe_graph_step env kp rp wp fl nn [] reactome [] f \<and>
      (\<forall>e. from_pickle env (path_join env rp f) = Inl e \<longrightarrow>
         universe_graph_step env kp rp wp fl nn kegg reactome wps f = Raise e) \<and>
      (\<forall>g. from_pickle env (path_join env rp f) = Inr g \<longrightarrow>
         (\<exists>g'. universe_graph_step env kp rp wp fl nn kegg reactome wps f = Yield g' \<and>
               database_tagged env (REACTOME env) (prepared_graph env fl nn (REACTOME env) g) g'))) \<and>
   (endswith f ''.pickle'' \<and> f \<notin> set kegg \<and> f \<notin> set reactome \<and> f \<in> set wps \<longrightarrow>
      (\<forall>e. from_pickle env (path_join env wp f) = Inl e \<longrightarrow>
         universe_graph_step env kp rp wp fl nn kegg reactome wps f = Raise e) \<and>
      (\<forall>g. from_pickle env (path_join env wp f) = Inr g \<longrightarrow>
         (\<exists>g'. universe_graph_step env kp rp wp fl nn kegg reactome wps f = Yield g' \<and>
               database_tagged env (WIKIPATHWAYS env)
                 (prepared_graph env fl nn (WIKIPATHWAYS env) g) g'))) \<and>
   (f \<notin> set kegg \<and> f \<notin> set reactome \<and> f \<notin> set wps \<longrightarrow>
      universe_graph_step env kp rp wp fl nn kegg reactome wps f = Continue)"
  by (simp add: universe_graph_step_def process_graph_tagged)

text \<open>
  \<open>good.pickle\<close> is in the KEGG listing and in the Reactome listing: it is loaded from
  the KEGG folder and tagged \<open>kegg\<close>. Without it in the KEGG listing it is tagged
  \<open>reactome\<close>.
\<close>

theorem classification_first_match_witness:
  "universe_graph_step ex_merge_env2 ''kegg'' ''reactome'' ''wikipathways'' False False
     [''good.pickle'', ''notes.txt''] [''good.pickle''] [] ''good.pickle'' =
     Yield (ex_graph\<lparr>graph_edges := [ex_edge\<lparr>annotations := Some [''database'' \<mapsto> {''kegg''}]\<rparr>],
              annotation_list := [''database'' \<mapsto> {''kegg'', ''reactome'', ''wikipathways''}]\<rparr>) \<and>
   from_pickle ex_merge_env2 (path_join ex_merge_env2 ''kegg'' ''good.pickle'') =
     Inr (ex_graph\<lparr>graph_edges := [ex_edge]\<rparr>) \<and>
   universe_graph_step ex_merge_env2 ''kegg'' ''reactome'' ''wikipathways'' False False
     [''notes.txt''] [''good.pickle''] [] ''good.pickle'' =
     Yield (ex_graph\<lparr>graph_edges := [ex_edge\<lparr>annotations := Some [''database'' \<mapsto> {''reactome''}]\<rparr>],
              annotation_list := [''database'' \<mapsto> {''kegg'', ''reactome'', ''wikipathways''}]\<rparr>)"
  using classification_first_match
          [of "''good.pickle''" ex_merge_env2 "''kegg''" "''reactome''" "''wikipathways''" False False
              "[''good.pickle'', ''notes.txt'']" "[''good.pickle'']" "[]"]
  by (simp add: universe_graph_step_def endswith_def ex_merge_env2_def ex_merge_env_def
      process_graph_def add_annotation_key_def add_annotation_value_def ex_edge_def ex_graph_def)

text \<open>
  \<open>notes.txt\<close> is in the KEGG listing and in the Reactome listing; it is skipped, not
  loaded from the KEGG folder.
\<close>

theorem text_file_skipped_counterexample:
  "universe_graph_step ex_merge_env2 ''kegg'' ''reactome'' ''wikipathways'' True True
     [''good.pickle'', ''notes.txt''] [''notes.txt''] [] ''notes.txt'' = Continue"
  by (simp add: universe_graph_step_def endswith_def)

section \<open>The universe merger: a file that cannot be loaded\<close>

lemma run_loop_no_raise:
  "\<forall>x \<in> set files. \<forall>e. body x \<noteq> Raise e \<Longrightarrow> run_loop body files = (yielded body files, None)"
proof (induction files)
  case Nil
  then show ?case by (simp add: yielded_def List.map_filter_def)
next
  case (Cons x rest)
  then have "run_loop body rest = (yielded body rest, None)" by simp
  with Cons.prems show ?case
    by (cases "body x") (simp_all add: yielded_def List.map_filter_def)
qed

lemma run_loop_raise:
  assumes "\<forall>x \<in> set pre. \<forall>e. body x \<noteq> Raise e" and "body f = Raise e"
  shows "run_loop body (pre @ f # rest) = (yielded body pre, Some e)"
  using assms(1)
proof (induction pre)
  case Nil
  with assms(2) show ?case by (simp add: yielded_def List.map_filter_def)
next
  case (Cons x pre)
  then have "run_loop body (pre @ f # rest) = (yielded body pre, Some e)" by simp
  with Cons.prems show ?case
    by (cases "body x") (simp_all add: yielded_def List.map_filter_def)
qed

lemma step_raise_iff:
  "universe_graph_step env kp rp wp fl nn kegg reactome wps f = Raise e \<longleftrightarrow>
     endswith f ''.pickle'' \<and>
     (f \<in> set kegg \<and> from_pickle env (path_join env kp f) = Inl e \<or>
      f \<notin> set kegg \<and> f \<in> set reactome \<and> from_pickle env (path_join env rp f) = Inl e \<or>
      f \<notin> set kegg \<and> f \<notin> set reactome \<and> f \<in> set wps \<and>
        from_pickle env (path_join env wp f) = Inl e)"
  by (auto simp: universe_graph_step_def split: sum.splits)

lemma step_continue_iff:
  "universe_graph_step env kp rp wp fl nn kegg reactome wps f = Continue \<longleftrightarrow>
     \<not> endswith f ''.pickle'' \<or> (f \<notin> set kegg \<and> f \<notin> set reactome \<and> f \<notin> set wps)"
  by (auto simp: universe_graph_step_def split: sum.splits)

text \<open>
  Claim C2, as the code has it. The loop of the merger has no handler around the
  loading of a file. When no file before \<open>f\<close> fails to load and the pickle \<open>f\<close> cannot
  be loaded from the folder it is classified under, the error ends the iteration: the
  merger has yielded the graphs of the files before \<open>f\<close>, one for each of them that
  the loop body does not skip, it ends with the error of \<open>f\<close>, and nothing of the
  files after \<open>f\<close> is in the result. The loop body skips a name exactly when it does
  not end in \<open>.pickle\<close> or is in none of the three listings.
\<close>

theorem load_failure_ends_iteration:
  assumes "get_all_pickles env kp rp wp = Inr (kegg, reactome, wps)"
    and "kegg @ reactome @ wps = pre @ f # rest"
    and "\<forall>x \<in> set pre. \<forall>e'. universe_graph_step env kp rp wp fl nn kegg reactome wps x \<noteq> Raise e'"
    and "endswith f ''.pickle''"
    and "f \<in> set kegg \<and> from_pickle env (path_join env kp f) = Inl e \<or>
         f \<notin> set kegg \<and> f \<in> set reactome \<and> from_pickle env (path_join env rp f) = Inl e \<or>
         f \<notin> set kegg \<and> f \<notin> set reactome \<and> f \<in> set wps \<and>
           from_pickle env (path_join env wp f) = Inl e"
  shows "iterate_universe_graphs env kp rp wp fl nn =
           (yielded (universe_graph_step env kp rp wp fl nn kegg reactome wps) pre, Some e) \<and>
         (\<forall>x. universe_graph_step env kp rp wp fl nn kegg reactome wps x = Continue \<longleftrightarrow>
            \<not> endswith x ''.pickle'' \<or> (x \<notin> set kegg \<and> x \<notin> set reactome \<and> x \<notin> set wps))"
proof
  have "universe_graph_step env kp rp wp fl nn kegg reactome wps f = Raise e"
    using assms(4,5) by (simp add: step_raise_iff)
  from run_loop_raise [OF assms(3) this, of rest] show
    "iterate_universe_graphs env kp rp wp fl nn =
       (yielded (universe_graph_step env kp rp wp fl nn kegg reactome wps) pre, Some e)"
    using assms(1,2) by (simp add: iterate_universe_graphs_def)
  show "\<forall>x. universe_graph_step env kp rp wp fl nn kegg reactome wps x = Continue \<longleftrightarrow>
            \<not> endswith x ''.pickle'' \<or> (x \<notin> set kegg \<and> x \<notin> set reactome \<and> x \<notin> set wps)"
    by (simp add: step_continue_iff)
qed

text \<open>
  The KEGG folder holds \<open>good.pickle\<close> and then \<open>bad.pickle\<close>, the Reactome folder
  \<open>late.pickle\<close>: the merger yields the graph of \<open>good.pickle\<close> and ends with the
  error of \<open>bad.pickle\<close>.
\<close>

theorem load_failure_ends_iteration_witness:
  "iterate_universe_graphs ex_merge_env ''kegg'' ''reactome'' ''wikipathways'' False False =
     ([ex_graph\<lparr>graph_edges := [ex_edge\<lparr>annotations := Some [''database'' \<mapsto> {''kegg''}]\<rparr>],
                annotation_list := [''database'' \<mapsto> {''kegg'', ''reactome'', ''wikipathways''}]\<rparr>],
      Some (OSError ''kegg/bad.pickle''))"
  using load_failure_ends_iteration
          [of ex_merge_env "''kegg''" "''reactome''" "''wikipathways''"
              "[''good.pickle'', ''bad.pickle'']" "[''late.pickle'']" "[]" "[''good.pickle'']"
              "''bad.pickle''" "[''late.pickle'']" False False "OSError ''kegg/bad.pickle''"]
        ex_pickles
  by (simp add: endswith_def universe_graph_step_def yielded_def List.map_filter_def
      ex_merge_env_def process_graph_def add_annotation_key_def add_annotation_value_def
      ex_edge_def ex_graph_def)

lemma ex_iterate_bad:
  "iterate_universe_graphs ex_merge_env ''kegg'' ''reactome'' ''wikipathways'' True True =
     ([ex_graph\<lparr>graph_edges := [ex_edge\<lparr>annotations := Some [''database'' \<mapsto> {''kegg''}]\<rparr>],
                annotation_list := [''database'' \<mapsto> {''kegg'', ''reactome'', ''wikipathways''}]\<rparr>],
      Some (OSError ''kegg/bad.pickle''))"
  by (simp add: iterate_universe_graphs_def ex_pickles)
     (simp add: universe_graph_step_def endswith_def
        ex_merge_env_def process_graph_def add_annotation_key_def
        add_annotation_value_def ex_edge_def ex_graph_def)

text \<open>
  \<open>late.pickle\<close> can be loaded, but the merger ends at \<open>bad.pickle\<close> with one graph
  yielded: the iteration does not continue with the next file.
\<close>

theorem bad_pickle_aborts_counterexample:
  "from_pickle ex_merge_env (path_join ex_merge_env ''reactome'' ''late.pickle'') =
     Inr (ex_graph\<lparr>graph_edges := [ex_edge]\<rparr>) \<and>
   length (fst (iterate_universe_graphs ex_merge_env ''kegg'' ''reactome'' ''wikipathways'' True True)) = 1 \<and>
   snd (iterate_universe_graphs ex_merge_env ''kegg'' ''reactome'' ''wikipathways'' True True) =
     Some (OSError ''kegg/bad.pickle'')"
  by (simp add: ex_iterate_bad) (simp add: ex_merge_env_def)

end
